theory Spec2Isabelle
  imports Main "HOL-Library.Sublist"
begin

unbundle bit_operations_syntax

section \<open>Priorities\<close>

text \<open>
  The Go type \<open>Priority\<close> is an \<open>int\<close>. The program only combines priorities with
  \<open>&\<close> and \<open>|\<close> and compares them, none of which can overflow, so the unbounded
  two's-complement integers of HOL behave as Go's do at either word size.
\<close>

type_synonym Priority = int

definition severityMask :: Priority where "severityMask = 0x07"
definition facilityMask :: Priority where "facilityMask = 0xf8"

text \<open>Severities: \<open>iota\<close> counts 0 to 7.\<close>

definition LOG_EMERG :: Priority where "LOG_EMERG = 0"
definition LOG_ALERT :: Priority where "LOG_ALERT = 1"
definition LOG_CRIT :: Priority where "LOG_CRIT = 2"
definition LOG_ERR :: Priority where "LOG_ERR = 3"
definition LOG_WARNING :: Priority where "LOG_WARNING = 4"
definition LOG_NOTICE :: Priority where "LOG_NOTICE = 5"
definition LOG_INFO :: Priority where "LOG_INFO = 6"
definition LOG_DEBUG :: Priority where "LOG_DEBUG = 7"

text \<open>Facilities: \<open>iota << 3\<close>, with the four blank identifiers taking 12 to 15.\<close>

definition LOG_KERN :: Priority where "LOG_KERN = push_bit 3 0"
definition LOG_USER :: Priority where "LOG_USER = push_bit 3 1"
definition LOG_MAIL :: Priority where "LOG_MAIL = push_bit 3 2"
definition LOG_DAEMON :: Priority where "LOG_DAEMON = push_bit 3 3"
definition LOG_AUTH :: Priority where "LOG_AUTH = push_bit 3 4"
definition LOG_SYSLOG :: Priority where "LOG_SYSLOG = push_bit 3 5"
definition LOG_LPR :: Priority where "LOG_LPR = push_bit 3 6"
definition LOG_NEWS :: Priority where "LOG_NEWS = push_bit 3 7"
definition LOG_UUCP :: Priority where "LOG_UUCP = push_bit 3 8"
definition LOG_CRON :: Priority where "LOG_CRON = push_bit 3 9"
definition LOG_AUTHPRIV :: Priority where "LOG_AUTHPRIV = push_bit 3 10"
definition LOG_FTP :: Priority where "LOG_FTP = push_bit 3 11"
definition LOG_LOCAL0 :: Priority where "LOG_LOCAL0 = push_bit 3 16"
definition LOG_LOCAL1 :: Priority where "LOG_LOCAL1 = push_bit 3 17"
definition LOG_LOCAL2 :: Priority where "LOG_LOCAL2 = push_bit 3 18"
definition LOG_LOCAL3 :: Priority where "LOG_LOCAL3 = push_bit 3 19"
definition LOG_LOCAL4 :: Priority where "LOG_LOCAL4 = push_bit 3 20"
definition LOG_LOCAL5 :: Priority where "LOG_LOCAL5 = push_bit 3 21"
definition LOG_LOCAL6 :: Priority where "LOG_LOCAL6 = push_bit 3 22"
definition LOG_LOCAL7 :: Priority where "LOG_LOCAL7 = push_bit 3 23"

section \<open>Errors and abnormal ends\<close>

text \<open>
  The error values the program builds with \<open>errors.New\<close> and \<open>fmt.Errorf\<close>, and the
  errors that come back from the \<open>net\<close> package (their text is the transport's own).
  \<open>InvalidLevel\<close> and \<open>InvalidFacility\<close> carry the token as the message prints it,
  which is the token after case folding.
\<close>

datatype error =
    InvalidPriority
  | InvalidLevel string
  | InvalidFacility string
  | NetError string

text \<open>
  A Go function that indexes a slice out of range does not return: the runtime panics.
  \<open>IndexOutOfRange i n\<close> is the panic \<open>index out of range [i] with length n\<close>;
  \<open>NilDereference\<close> is a method call on a nil interface value.
\<close>

datatype panic = IndexOutOfRange nat nat | NilDereference

datatype 'a result = Returned 'a | Panicked panic

definition index :: "'a list \<Rightarrow> nat \<Rightarrow> 'a result" where
  "index xs i = (if i < length xs then Returned (xs ! i) else Panicked (IndexOutOfRange i (length xs)))"

section \<open>The string functions of the standard library\<close>

text \<open>
  Strings are byte sequences. \<open>strings.ToUpper\<close> has a fast path for a string of
  ASCII bytes only, which maps \<open>a\<close> to \<open>z\<close> onto \<open>A\<close> to \<open>Z\<close> and leaves every
  other byte alone. A string with a byte from 0x80 on is decoded as UTF-8 and mapped rune
  by rune through the Unicode tables; those tables are not part of this program, so that
  path is the parameter \<open>U\<close>.
\<close>

definition isASCII :: "string \<Rightarrow> bool" where
  "isASCII s = list_all (\<lambda>c. (of_char c :: nat) < 128) s"

definition upperByte :: "char \<Rightarrow> char" where
  "upperByte c =
     (if (97::nat) \<le> of_char c \<and> (of_char c :: nat) \<le> 122
      then char_of ((of_char c :: nat) - 32) else c)"

definition ToUpper :: "(string \<Rightarrow> string) \<Rightarrow> string \<Rightarrow> string" where
  "ToUpper U s = (if isASCII s then map upperByte s else U s)"

text \<open>
  \<open>strings.Split(s, sep)\<close> for a separator of one byte: every occurrence of the
  separator ends a token, so a string with \<open>n\<close> separators gives \<open>n + 1\<close> tokens, and
  the empty string gives the one empty token. \<open>acc\<close> holds the current token, reversed.
\<close>

fun splitAcc :: "char \<Rightarrow> string \<Rightarrow> string \<Rightarrow> string list" where
  "splitAcc sep acc [] = [rev acc]"
| "splitAcc sep acc (c # cs) =
     (if c = sep then rev acc # splitAcc sep [] cs else splitAcc sep (c # acc) cs)"

definition Split :: "string \<Rightarrow> char \<Rightarrow> string list" where
  "Split s sep = splitAcc sep [] s"

text \<open>\<open>strings.HasSuffix\<close>, as the library writes it.\<close>

definition HasSuffix :: "string \<Rightarrow> string \<Rightarrow> bool" where
  "HasSuffix s suf = (length suf \<le> length s \<and> drop (length s - length suf) s = suf)"

section \<open>Parsing a priority\<close>

definition levelPriority :: "(string \<Rightarrow> string) \<Rightarrow> string \<Rightarrow> error + Priority" where
  "levelPriority U level0 =
     (let level = ToUpper U level0 in
      if level = ''EMERG'' then Inr LOG_EMERG
      else if level = ''ALERT'' then Inr LOG_ALERT
      else if level = ''CRIT'' then Inr LOG_CRIT
      else if level = ''ERR'' then Inr LOG_ERR
      else if level = ''WARN'' \<or> level = ''WARNING'' then Inr LOG_WARNING
      else if level = ''NOTICE'' then Inr LOG_NOTICE
      else if level = ''INFO'' then Inr LOG_INFO
      else if level = ''DEBUG'' then Inr LOG_DEBUG
      else Inl (InvalidLevel level))"

definition facilityPriority :: "(string \<Rightarrow> string) \<Rightarrow> string \<Rightarrow> error + Priority" where
  "facilityPriority U facility0 =
     (let facility = ToUpper U facility0 in
      if facility = ''KERN'' then Inr LOG_KERN
      else if facility = ''USER'' then Inr LOG_USER
      else if facility = ''MAIL'' then Inr LOG_MAIL
      else if facility = ''DAEMON'' then Inr LOG_DAEMON
      else if facility = ''AUTH'' then Inr LOG_AUTH
      else if facility = ''SYSLOG'' then Inr LOG_SYSLOG
      else if facility = ''LPR'' then Inr LOG_LPR
      else if facility = ''NEWS'' then Inr LOG_NEWS
      else if facility = ''UUCP'' then Inr LOG_UUCP
      else if facility = ''CRON'' then Inr LOG_CRON
      else if facility = ''AUTHPRIV'' then Inr LOG_AUTHPRIV
      else if facility = ''FTP'' then Inr LOG_FTP
      else if facility = ''LOCAL0'' then Inr LOG_LOCAL0
      else if facility = ''LOCAL1'' then Inr LOG_LOCAL1
      else if facility = ''LOCAL2'' then Inr LOG_LOCAL2
      else if facility = ''LOCAL3'' then Inr LOG_LOCAL3
      else if facility = ''LOCAL4'' then Inr LOG_LOCAL4
      else if facility = ''LOCAL5'' then Inr LOG_LOCAL5
      else if facility = ''LOCAL6'' then Inr LOG_LOCAL6
      else if facility = ''LOCAL7'' then Inr LOG_LOCAL7
      else Inl (InvalidFacility facility))"

text \<open>
  \<open>parsePriority\<close> reads \<open>tokens[0]\<close> and \<open>tokens[1]\<close> without looking at the
  length of \<open>tokens\<close>; each read is a bounds-checked \<open>index\<close>.
\<close>

definition parsePriority :: "(string \<Rightarrow> string) \<Rightarrow> string \<Rightarrow> (error + Priority) result" where
  "parsePriority U text =
     (let tokens = Split text (CHR ''.'') in
      case index tokens 0 of
        Panicked p \<Rightarrow> Panicked p
      | Returned t0 \<Rightarrow>
          (case facilityPriority U t0 of
             Inl err \<Rightarrow> Returned (Inl err)
           | Inr facility \<Rightarrow>
               (case index tokens 1 of
                  Panicked p \<Rightarrow> Panicked p
                | Returned t1 \<Rightarrow>
                    (case levelPriority U t1 of
                       Inl err \<Rightarrow> Returned (Inl err)
                     | Inr level \<Rightarrow> Returned (Inr (facility OR level))))))"

section \<open>The world outside the program\<close>

text \<open>
  A connection handle: the time step at which \<open>net.Dial\<close> opened it, and the string
  form of its local address.
\<close>

datatype conn = Conn nat string

fun LocalAddr :: "conn \<Rightarrow> string" where
  "LocalAddr (Conn k a) = a"

text \<open>
  What the program does to the network, in order: each call of \<open>net.Dial\<close>, of the
  connection's \<open>Write\<close> and of its \<open>Close\<close>, with the arguments and the answer.
\<close>

datatype event =
    DialEv string string "string + conn"
  | WriteEv conn string "string option"
  | CloseEv conn "string option"

text \<open>
  The operating system and the network answer as they please: they are functions of the
  time step (the number of events so far) and of the arguments. \<open>netDial\<close> answers with
  an error text or with the local address of the new connection; \<open>connWrite\<close> and
  \<open>connClose\<close> answer with an error text or with nothing. \<open>Now\<close> is
  \<open>time.Now().Format(time.RFC3339)\<close>, and \<open>osHostname\<close> is what \<open>os.Hostname\<close>
  returns beside its error (the program drops the error).
\<close>

record env =
  Args0 :: string
  osHostname :: string
  Getpid :: int
  Now :: "nat \<Rightarrow> string"
  netDial :: "nat \<Rightarrow> string \<Rightarrow> string \<Rightarrow> string + string"
  connWrite :: "nat \<Rightarrow> conn \<Rightarrow> string \<Rightarrow> string option"
  connClose :: "nat \<Rightarrow> conn \<Rightarrow> string option"

text \<open>
  A call either returns, or it never does: it panics, or it waits for ever for a mutex.
  Both carry the events up to that point.
\<close>

datatype stop = Deadlock | Panic panic

datatype 'a exec = Done 'a "event list" | Stopped stop "event list"

fun trace_of :: "'a exec \<Rightarrow> event list" where
  "trace_of (Done a tr) = tr"
| "trace_of (Stopped s tr) = tr"

section \<open>Formatting\<close>

text \<open>The verb \<open>%d\<close> on an integer: decimal digits, with a minus sign when negative.\<close>

definition digitChar :: "nat \<Rightarrow> char" where
  "digitChar d = char_of (48 + d)"

fun digitsOf :: "nat \<Rightarrow> string" where
  "digitsOf n = (if n < 10 then [digitChar n] else digitsOf (n div 10) @ [digitChar (n mod 10)])"

declare digitsOf.simps [simp del]

definition fmtInt :: "int \<Rightarrow> string" where
  "fmtInt i = (if i < 0 then CHR ''-'' # digitsOf (nat (- i)) else digitsOf (nat i))"

text \<open>The format \<open><%d>%s %s %s[%d]: %s%s\<close> of \<open>writeString\<close>.\<close>

definition frame :: "Priority \<Rightarrow> string \<Rightarrow> string \<Rightarrow> string \<Rightarrow> int \<Rightarrow> string \<Rightarrow> string \<Rightarrow> string" where
  "frame p timestamp host tg pid msg nl =
     ''<'' @ fmtInt p @ ''>'' @ timestamp @ '' '' @ host @ '' '' @ tg @
     ''['' @ fmtInt pid @ '']: '' @ msg @ nl"

section \<open>The writer\<close>

text \<open>
  The struct \<open>Writer\<close>. \<open>mu\<close> is the state of the mutex, held or free. A
  \<open>sync.Mutex\<close> is not reentrant: \<open>Lock\<close> on a held mutex waits until another
  goroutine unlocks it, and in this program no goroutine unlocks a mutex it did not lock,
  so a goroutine that locks the mutex it holds waits for ever.
\<close>

record Writer =
  priority :: Priority
  tag :: string
  hostname :: string
  network :: string
  raddr :: string
  mu :: bool
  conn :: "conn option"

definition Close :: "env \<Rightarrow> Writer \<Rightarrow> event list \<Rightarrow> (error option \<times> Writer) exec" where
  "Close E w tr =
     (if mu w then Stopped Deadlock tr
      else
        let w1 = w\<lparr>mu := True\<rparr> in
        case conn w1 of
          Some c \<Rightarrow>
            (let r = connClose E (length tr) c in
             Done (map_option NetError r, w1\<lparr>conn := None, mu := False\<rparr>) (tr @ [CloseEv c r]))
        | None \<Rightarrow> Done (None, w1\<lparr>mu := False\<rparr>) tr)"

text \<open>
  \<open>connect\<close> is called with \<open>mu\<close> held. Where a connection is held it calls the
  method \<open>Close\<close> above, the one that locks \<open>mu\<close> itself, and drops its error.
\<close>

definition connect :: "env \<Rightarrow> Writer \<Rightarrow> event list \<Rightarrow> (error option \<times> Writer) exec" where
  "connect E w tr =
     (case (case conn w of None \<Rightarrow> Done (None, w) tr | Some c \<Rightarrow> Close E w tr) of
        Stopped x tr1 \<Rightarrow> Stopped x tr1
      | Done (ignored, w1) tr1 \<Rightarrow>
          (case netDial E (length tr1) (network w1) (raddr w1) of
             Inl e \<Rightarrow>
               Done (Some (NetError e), w1\<lparr>conn := None\<rparr>)
                 (tr1 @ [DialEv (network w1) (raddr w1) (Inl e)])
           | Inr la \<Rightarrow>
               (let c = Conn (length tr1) la;
                    w2 = w1\<lparr>conn := Some c\<rparr>;
                    w3 = (if hostname w2 = [] then w2\<lparr>hostname := LocalAddr c\<rparr> else w2)
                in Done (None, w3) (tr1 @ [DialEv (network w1) (raddr w1) (Inr c)]))))"

text \<open>
  \<open>fmt.Fprintf\<close> formats the whole line and hands it to the connection in one
  \<open>Write\<close>; only the error of that call is kept.
\<close>

definition writeString ::
  "env \<Rightarrow> Writer \<Rightarrow> event list \<Rightarrow> Priority \<Rightarrow> string \<Rightarrow> string \<Rightarrow> string \<Rightarrow> string \<Rightarrow> error option exec" where
  "writeString E w tr p host tg msg nl =
     (let timestamp = Now E (length tr);
          line = frame p timestamp host tg (Getpid E) msg nl
      in case conn w of
           None \<Rightarrow> Stopped (Panic NilDereference) tr
         | Some c \<Rightarrow>
             (let r = connWrite E (length tr) c line
              in Done (map_option NetError r) (tr @ [WriteEv c line r])))"

text \<open>The method \<open>write\<close> (the name is taken in Isabelle, hence the suffix).\<close>

definition write_msg :: "env \<Rightarrow> Writer \<Rightarrow> event list \<Rightarrow> Priority \<Rightarrow> string \<Rightarrow> (int \<times> error option) exec" where
  "write_msg E w tr p msg =
     (let nl = (if \<not> HasSuffix msg [CHR 0x0A] then [CHR 0x0A] else [])
      in case writeString E w tr p (hostname w) (tag w) msg nl of
           Stopped x tr1 \<Rightarrow> Stopped x tr1
         | Done (Some err) tr1 \<Rightarrow> Done (0, Some err) tr1
         | Done None tr1 \<Rightarrow> Done (int (length msg), None) tr1)"

text \<open>
  \<open>writeAndRetry\<close>: the first stage is the write over the held connection, whose
  success returns at once (\<open>Some n\<close> below); everything else goes on to \<open>connect\<close>.
  The deferred \<open>Unlock\<close> runs on each return.
\<close>

definition writeAndRetry ::
  "env \<Rightarrow> Writer \<Rightarrow> event list \<Rightarrow> Priority \<Rightarrow> string \<Rightarrow> ((int \<times> error option) \<times> Writer) exec" where
  "writeAndRetry E w tr p s =
     (let pr = (priority w AND facilityMask) OR (p AND severityMask) in
      if mu w then Stopped Deadlock tr
      else
        let w1 = w\<lparr>mu := True\<rparr> in
        case (case conn w1 of
                None \<Rightarrow> Done None tr
              | Some c \<Rightarrow>
                  (case write_msg E w1 tr pr s of
                     Stopped x tr1 \<Rightarrow> Stopped x tr1
                   | Done (n, None) tr1 \<Rightarrow> Done (Some n) tr1
                   | Done (n, Some err) tr1 \<Rightarrow> Done None tr1)) of
          Stopped x tr1 \<Rightarrow> Stopped x tr1
        | Done (Some n) tr1 \<Rightarrow> Done ((n, None), w1\<lparr>mu := False\<rparr>) tr1
        | Done None tr1 \<Rightarrow>
            (case connect E w1 tr1 of
               Stopped x tr2 \<Rightarrow> Stopped x tr2
             | Done (Some err, w2) tr2 \<Rightarrow> Done ((0, Some err), w2\<lparr>mu := False\<rparr>) tr2
             | Done (None, w2) tr2 \<Rightarrow>
                 (case write_msg E w2 tr2 pr s of
                    Stopped x tr3 \<Rightarrow> Stopped x tr3
                  | Done r tr3 \<Rightarrow> Done (r, w2\<lparr>mu := False\<rparr>) tr3)))"


definition dropCount :: "((int \<times> error option) \<times> Writer) exec \<Rightarrow> (error option \<times> Writer) exec" where
  "dropCount r = (case r of Stopped x tr \<Rightarrow> Stopped x tr | Done ((n, err), w) tr \<Rightarrow> Done (err, w) tr)"

definition Emerg :: "env \<Rightarrow> Writer \<Rightarrow> event list \<Rightarrow> string \<Rightarrow> (error option \<times> Writer) exec" where
  "Emerg E w tr m = dropCount (writeAndRetry E w tr LOG_EMERG m)"

definition Alert :: "env \<Rightarrow> Writer \<Rightarrow> event list \<Rightarrow> string \<Rightarrow> (error option \<times> Writer) exec" where
  "Alert E w tr m = dropCount (writeAndRetry E w tr LOG_ALERT m)"

definition Crit :: "env \<Rightarrow> Writer \<Rightarrow> event list \<Rightarrow> string \<Rightarrow> (error option \<times> Writer) exec" where
  "Crit E w tr m = dropCount (writeAndRetry E w tr LOG_CRIT m)"

definition Err :: "env \<Rightarrow> Writer \<Rightarrow> event list \<Rightarrow> string \<Rightarrow> (error option \<times> Writer) exec" where
  "Err E w tr m = dropCount (writeAndRetry E w tr LOG_ERR m)"

definition Warning :: "env \<Rightarrow> Writer \<Rightarrow> event list \<Rightarrow> string \<Rightarrow> (error option \<times> Writer) exec" where
  "Warning E w tr m = dropCount (writeAndRetry E w tr LOG_WARNING m)"

definition Notice :: "env \<Rightarrow> Writer \<Rightarrow> event list \<Rightarrow> string \<Rightarrow> (error option \<times> Writer) exec" where
  "Notice E w tr m = dropCount (writeAndRetry E w tr LOG_NOTICE m)"

definition Info :: "env \<Rightarrow> Writer \<Rightarrow> event list \<Rightarrow> string \<Rightarrow> (error option \<times> Writer) exec" where
  "Info E w tr m = dropCount (writeAndRetry E w tr LOG_INFO m)"

definition Debug :: "env \<Rightarrow> Writer \<Rightarrow> event list \<Rightarrow> string \<Rightarrow> (error option \<times> Writer) exec" where
  "Debug E w tr m = dropCount (writeAndRetry E w tr LOG_DEBUG m)"

text \<open>
  \<open>Dial\<close>. The parameters are \<open>network\<close>, \<open>raddr\<close>, \<open>priority\<close>, \<open>tag\<close> and
  \<open>hostname\<close> of the source, renamed where the record's fields have the name.
\<close>

definition Dial ::
  "env \<Rightarrow> event list \<Rightarrow> string \<Rightarrow> string \<Rightarrow> Priority \<Rightarrow> string \<Rightarrow> string \<Rightarrow> (error + Writer) exec" where
  "Dial E tr net addr pri tg host =
     (if pri < 0 \<or> pri > (LOG_LOCAL7 OR LOG_DEBUG) then Done (Inl InvalidPriority) tr
      else
        let tg1 = (if tg = [] then Args0 E else tg);
            host1 = (if host = [] then osHostname E else host);
            w = \<lparr>priority = pri, tag = tg1, hostname = host1, network = net, raddr = addr,
                 mu = False, conn = None\<rparr>;
            w1 = w\<lparr>mu := True\<rparr>
        in case connect E w1 tr of
             Stopped x tr1 \<Rightarrow> Stopped x tr1
           | Done (Some err, w2) tr1 \<Rightarrow> Done (Inl err) tr1
           | Done (None, w2) tr1 \<Rightarrow> Done (Inr (w2\<lparr>mu := False\<rparr>)) tr1)"

section \<open>The tables of the specification\<close>

text \<open>
  These three definitions follow the words of the specification, not the code: its data
  model numbers the facilities 0 to 23 without 12 to 15, in the order of its list, stores
  them shifted left by three bits, and numbers the severities 0 to 7; its \<open>combine\<close>
  masks both halves. The theorems below compare the code with them.
\<close>

definition spec_facilityCodes :: "(string \<times> nat) list" where
  "spec_facilityCodes =
     [(''KERN'', 0), (''USER'', 1), (''MAIL'', 2), (''DAEMON'', 3), (''AUTH'', 4),
      (''SYSLOG'', 5), (''LPR'', 6), (''NEWS'', 7), (''UUCP'', 8), (''CRON'', 9),
      (''AUTHPRIV'', 10), (''FTP'', 11),
      (''LOCAL0'', 16), (''LOCAL1'', 17), (''LOCAL2'', 18), (''LOCAL3'', 19),
      (''LOCAL4'', 20), (''LOCAL5'', 21), (''LOCAL6'', 22), (''LOCAL7'', 23)]"

definition spec_levelCodes :: "(string \<times> nat) list" where
  "spec_levelCodes =
     [(''EMERG'', 0), (''ALERT'', 1), (''CRIT'', 2), (''ERR'', 3),
      (''WARNING'', 4), (''NOTICE'', 5), (''INFO'', 6), (''DEBUG'', 7)]"

definition spec_combine :: "int \<Rightarrow> int \<Rightarrow> Priority" where
  "spec_combine facility severity = (facility AND 0xF8) OR (severity AND 0x07)"

section \<open>Two worlds to run the program in\<close>

text \<open>
  In \<open>quietEnv\<close> every call to the network succeeds; in \<open>brokenEnv\<close> connections
  open but every write over them fails, as over a connection the peer has closed.
\<close>

definition quietEnv :: env where
  "quietEnv =
     \<lparr>Args0 = ''logger'', osHostname = ''host1'', Getpid = 4242,
      Now = (\<lambda>t. ''2006-01-02T15:04:05Z''),
      netDial = (\<lambda>t n a. Inr ''127.0.0.1:40000''),
      connWrite = (\<lambda>t c line. None),
      connClose = (\<lambda>t c. None)\<rparr>"

definition brokenEnv :: env where
  "brokenEnv = quietEnv\<lparr>connWrite := (\<lambda>t c line. Some ''broken pipe'')\<rparr>"

text \<open>The lines handed to the network, in order.\<close>

fun linesOf :: "event list \<Rightarrow> string list" where
  "linesOf [] = []"
| "linesOf (WriteEv c line r # evs) = line # linesOf evs"
| "linesOf (ev # evs) = linesOf evs"

text \<open>
  A run of the program: \<open>Dial\<close>, and then one call of a method with a message on the
  writer it returned. Where \<open>Dial\<close> fails there is no writer and the run ends there.
\<close>

definition dialThen ::
  "env \<Rightarrow> string \<Rightarrow> string \<Rightarrow> Priority \<Rightarrow> string \<Rightarrow> string \<Rightarrow>
   (env \<Rightarrow> Writer \<Rightarrow> event list \<Rightarrow> string \<Rightarrow> 'a exec) \<Rightarrow> string \<Rightarrow> 'a exec option" where
  "dialThen E net addr pri tg host method m =
     (case Dial E [] net addr pri tg host of
        Done (Inr w) tr \<Rightarrow> Some (method E w tr m)
      | Done (Inl err) tr \<Rightarrow> None
      | Stopped x tr \<Rightarrow> None)"

text \<open>
  The writer that \<open>Dial\<close> returns in these two worlds for the network \<open>tcp\<close>, the
  address \<open>:1514\<close> and the tag \<open>svc\<close> (lemma \<open>Dial_heldWriter\<close> below).
\<close>

definition heldWriter :: "Priority \<Rightarrow> Writer" where
  "heldWriter pri =
     \<lparr>priority = pri, tag = ''svc'', hostname = ''host1'', network = ''tcp'', raddr = '':1514'',
      mu = False, conn = Some (Conn 0 ''127.0.0.1:40000'')\<rparr>"

section \<open>Evaluation\<close>

lemmas severity_defs =
  LOG_EMERG_def LOG_ALERT_def LOG_CRIT_def LOG_ERR_def
  LOG_WARNING_def LOG_NOTICE_def LOG_INFO_def LOG_DEBUG_def

lemmas facility_defs =
  LOG_KERN_def LOG_USER_def LOG_MAIL_def LOG_DAEMON_def LOG_AUTH_def LOG_SYSLOG_def
  LOG_LPR_def LOG_NEWS_def LOG_UUCP_def LOG_CRON_def LOG_AUTHPRIV_def LOG_FTP_def
  LOG_LOCAL0_def LOG_LOCAL1_def LOG_LOCAL2_def LOG_LOCAL3_def
  LOG_LOCAL4_def LOG_LOCAL5_def LOG_LOCAL6_def LOG_LOCAL7_def

lemmas upper_eval = ToUpper_def isASCII_def upperByte_def char_of_def bit_Suc_0_iff

lemmas fmt_eval = fmtInt_def digitsOf.simps digitChar_def char_of_def bit_Suc_0_iff

lemmas parse_eval =
  parsePriority_def Split_def index_def facilityPriority_def levelPriority_def Let_def
  upper_eval facility_defs severity_defs

lemmas run_eval =
  Dial_def connect_def Close_def writeAndRetry_def write_msg_def writeString_def
  dropCount_def frame_def HasSuffix_def facility_defs severity_defs
  facilityMask_def severityMask_def Let_def fmt_eval

section \<open>Splitting at the dot\<close>

lemma splitAcc_ne: "splitAcc sep acc s \<noteq> []"
  by (induction s arbitrary: acc) auto

lemma Split_ne: "Split s sep \<noteq> []"
  by (simp add: Split_def splitAcc_ne)

lemma splitAcc_sep:
  "sep \<notin> set s \<Longrightarrow> splitAcc sep acc (s @ sep # r) = (rev acc @ s) # splitAcc sep [] r"
  by (induction s arbitrary: acc) auto

lemma splitAcc_nosep: "sep \<notin> set s \<Longrightarrow> splitAcc sep acc s = [rev acc @ s]"
  by (induction s arbitrary: acc) auto

lemma Split_one: "sep \<notin> set s \<Longrightarrow> Split s sep = [s]"
  by (simp add: Split_def splitAcc_nosep)

lemma Split_two:
  "sep \<notin> set f \<Longrightarrow> sep \<notin> set l \<Longrightarrow> Split (f @ sep # l) sep = [f, l]"
  by (simp add: Split_def splitAcc_sep splitAcc_nosep)

section \<open>The two switches\<close>

lemma facilityPriority_fails:
  "(\<exists>e. facilityPriority U t = Inl e) \<longleftrightarrow> ToUpper U t \<notin> set (map fst spec_facilityCodes)"
  by (simp add: facilityPriority_def spec_facilityCodes_def Let_def)

lemma facilityPriority_error:
  "facilityPriority U t = Inl e \<Longrightarrow> e = InvalidFacility (ToUpper U t)"
  by (simp add: facilityPriority_def Let_def split: if_splits)

lemma levelPriority_fails:
  "(\<exists>e. levelPriority U t = Inl e) \<longleftrightarrow> ToUpper U t \<notin> set (''WARN'' # map fst spec_levelCodes)"
  by (simp add: levelPriority_def spec_levelCodes_def Let_def)

lemma levelPriority_error:
  "levelPriority U t = Inl e \<Longrightarrow> e = InvalidLevel (ToUpper U t)"
  by (simp add: levelPriority_def Let_def split: if_splits)

lemma facilityPriority_values:
  "facilityPriority U t = Inr a \<Longrightarrow>
     a \<in> {0, 8, 16, 24, 32, 40, 48, 56, 64, 72, 80, 88, 128, 136, 144, 152, 160, 168, 176, 184}"
  by (simp add: facilityPriority_def Let_def facility_defs split: if_splits)

lemma levelPriority_values:
  "levelPriority U t = Inr b \<Longrightarrow> b \<in> {0, 1, 2, 3, 4, 5, 6, 7}"
  by (simp add: levelPriority_def Let_def severity_defs split: if_splits)

lemma or_range:
  "a \<in> {0, 8, 16, 24, 32, 40, 48, 56, 64, 72, 80, 88, 128, 136, 144, 152, 160, 168, 176, 184} \<Longrightarrow>
   b \<in> {0, 1, 2, 3, 4, 5, 6, 7} \<Longrightarrow>
   0 \<le> a OR b \<and> a OR b \<le> (191::int) \<and> drop_bit 3 (a OR b) \<notin> {12::int, 13, 14, 15}"
  by (elim insertE emptyE; simp)

lemma facility_table:
  "\<forall>(f, c) \<in> set spec_facilityCodes.
     CHR ''.'' \<notin> set f \<and> facilityPriority U f = Inr (push_bit 3 (int c))"
  by (simp add: spec_facilityCodes_def facilityPriority_def facility_defs upper_eval)

lemma level_table:
  "\<forall>(l, c) \<in> set spec_levelCodes. CHR ''.'' \<notin> set l \<and> levelPriority U l = Inr (int c)"
  by (simp add: spec_levelCodes_def levelPriority_def severity_defs upper_eval)

lemma combine_codes:
  "\<forall>(f, c) \<in> set spec_facilityCodes. \<forall>(l, d) \<in> set spec_levelCodes.
     spec_combine (push_bit 3 (int c)) (int d) = push_bit 3 (int c) OR int d"
  by (simp add: spec_facilityCodes_def spec_levelCodes_def spec_combine_def)

section \<open>What parsePriority returns\<close>

lemma parsePriority_unfold:
  "parsePriority U s =
     (case facilityPriority U (Split s (CHR ''.'') ! 0) of
        Inl err \<Rightarrow> Returned (Inl err)
      | Inr facility \<Rightarrow>
          if 1 < length (Split s (CHR ''.''))
          then (case levelPriority U (Split s (CHR ''.'') ! 1) of
                  Inl err \<Rightarrow> Returned (Inl err)
                | Inr level \<Rightarrow> Returned (Inr (facility OR level)))
          else Panicked (IndexOutOfRange 1 (length (Split s (CHR ''.'')))))"
  using Split_ne [of s "CHR ''.''"]
  by (simp add: parsePriority_def index_def Let_def split: sum.splits)

lemma parsePriority_two:
  assumes "CHR ''.'' \<notin> set f" "CHR ''.'' \<notin> set l"
    and "facilityPriority U f = Inr a" "levelPriority U l = Inr b"
  shows "parsePriority U (f @ ''.'' @ l) = Returned (Inr (a OR b))"
  using assms by (simp add: parsePriority_def Split_two index_def)

lemma parsePriority_Inr:
  "parsePriority U s = Returned (Inr p) \<Longrightarrow>
     \<exists>t0 t1 a b. facilityPriority U t0 = Inr a \<and> levelPriority U t1 = Inr b \<and> p = a OR b"
  by (auto simp: parsePriority_unfold split: if_splits sum.splits)

lemma parsePriority_bounds:
  assumes "parsePriority U s = Returned (Inr p)"
  shows "0 \<le> p \<and> p \<le> 191 \<and> drop_bit 3 p \<notin> {12::int, 13, 14, 15}"
proof -
  from assms obtain t0 t1 a b where
    "facilityPriority U t0 = Inr a" "levelPriority U t1 = Inr b" "p = a OR b"
    using parsePriority_Inr by blast
  then show ?thesis
    using or_range [OF facilityPriority_values levelPriority_values] by blast
qed

text \<open>
  A string with no dot whose only token is a facility: the read of \<open>tokens[1]\<close> is out
  of range and the call panics.
\<close>

lemma parsePriority_no_level:
  assumes "CHR ''.'' \<notin> set s" "facilityPriority U s = Inr a"
  shows "parsePriority U s = Panicked (IndexOutOfRange 1 1)"
  using assms by (simp add: parsePriority_unfold Split_one)

text \<open>
  C1. The claim: \<open>parsePriority\<close> returns a priority or an error for every input string,
  also for one without a dot, and never reads a token out of range. The code at the input
  \<open>user\<close>: the split gives the one token \<open>user\<close>, the facility is accepted, and the read
  of \<open>tokens[1]\<close> panics.
\<close>

theorem parsePriority_user_panics:
  "parsePriority U ''user'' = Panicked (IndexOutOfRange 1 1)"
  by (simp add: parse_eval)

text \<open>
  C5. There are 20 facility mnemonics and 8 level mnemonics, and for every facility
  mnemonic \<open>f\<close> and every level mnemonic \<open>l\<close> among them
  \<open>parsePriority\<close> of \<open>f.l\<close> succeeds with the facility's value (its code shifted
  left by three) or-ed with the level's value, which is what \<open>combine\<close> gives on them.
\<close>

theorem parsePriority_table:
  "length spec_facilityCodes = 20 \<and> distinct (map fst spec_facilityCodes) \<and>
   length spec_levelCodes = 8 \<and> distinct (map fst spec_levelCodes) \<and>
   (\<forall>(f, c) \<in> set spec_facilityCodes. \<forall>(l, d) \<in> set spec_levelCodes.
     parsePriority U (f @ ''.'' @ l) = Returned (Inr (push_bit 3 (int c) OR int d)) \<and>
     parsePriority U (f @ ''.'' @ l) = Returned (Inr (spec_combine (push_bit 3 (int c)) (int d))))"
proof -
  have fs: "length spec_facilityCodes = 20 \<and> distinct (map fst spec_facilityCodes)"
    by (simp add: spec_facilityCodes_def)
  have ls: "length spec_levelCodes = 8 \<and> distinct (map fst spec_levelCodes)"
    by (simp add: spec_levelCodes_def)
  have pairs: "\<forall>(f, c) \<in> set spec_facilityCodes. \<forall>(l, d) \<in> set spec_levelCodes.
     parsePriority U (f @ ''.'' @ l) = Returned (Inr (push_bit 3 (int c) OR int d)) \<and>
     parsePriority U (f @ ''.'' @ l) = Returned (Inr (spec_combine (push_bit 3 (int c)) (int d)))"
  proof (intro ballI, clarify)
    fix f c l d
    assume f: "(f, c) \<in> set spec_facilityCodes" and l: "(l, d) \<in> set spec_levelCodes"
    from f facility_table [of U]
    have ft: "CHR ''.'' \<notin> set f" "facilityPriority U f = Inr (push_bit 3 (int c))" by auto
    from l level_table [of U]
    have lt: "CHR ''.'' \<notin> set l" "levelPriority U l = Inr (int d)" by auto
    have p: "parsePriority U (f @ ''.'' @ l) = Returned (Inr (push_bit 3 (int c) OR int d))"
      using parsePriority_two [OF ft(1) lt(1) ft(2) lt(2)] .
    from f l combine_codes
    have "spec_combine (push_bit 3 (int c)) (int d) = push_bit 3 (int c) OR int d" by fastforce
    with p show "parsePriority U (f @ ''.'' @ l) = Returned (Inr (push_bit 3 (int c) OR int d)) \<and>
       parsePriority U (f @ ''.'' @ l) = Returned (Inr (spec_combine (push_bit 3 (int c)) (int d)))"
      by simp
  qed
  from fs ls pairs show ?thesis by blast
qed

theorem parsePriority_table_witness:
  "(''LOCAL3'', 19) \<in> set spec_facilityCodes \<and> (''DEBUG'', 7) \<in> set spec_levelCodes \<and>
   parsePriority id ''LOCAL3.DEBUG'' = Returned (Inr 159) \<and>
   spec_combine (push_bit 3 19) 7 = 159"
  using parsePriority_table [of id]
  by (simp add: spec_facilityCodes_def spec_levelCodes_def spec_combine_def)

text \<open>
  C6. The claim, as it is written, has \<open>parsePriority\<close> fail with an invalid-level error
  exactly when the level token is not accepted. At the input \<open>x.y\<close> the level token
  \<open>y\<close> is not accepted, and the error is the invalid-facility one: the facility is
  looked at first, and its error returns before the level is read.
\<close>

theorem parsePriority_level_counterexample:
  "ToUpper id (Split ''x.y'' (CHR ''.'') ! 1) \<notin> set (''WARN'' # map fst spec_levelCodes) \<and>
   parsePriority id ''x.y'' = Returned (Inl (InvalidFacility ''X''))"
  by (simp add: parse_eval spec_levelCodes_def)

text \<open>
  C6, amended. \<open>parsePriority\<close> fails with the invalid-facility error exactly when the
  case-folded facility token is not one of the 20 facility mnemonics. For an input whose
  facility token is accepted and which has a level token, it fails with the invalid-level
  error exactly when the case-folded level token is not one of the 8 level mnemonics or
  \<open>WARN\<close>, which stands for \<open>WARNING\<close>. No priority it returns has a facility code
  from 12 to 15.
\<close>

theorem parsePriority_errors:
  "(parsePriority U s = Returned (Inl (InvalidFacility (ToUpper U (Split s (CHR ''.'') ! 0))))
      \<longleftrightarrow> ToUpper U (Split s (CHR ''.'') ! 0) \<notin> set (map fst spec_facilityCodes)) \<and>
   (ToUpper U (Split s (CHR ''.'') ! 0) \<in> set (map fst spec_facilityCodes) \<and>
    1 < length (Split s (CHR ''.'')) \<longrightarrow>
      (parsePriority U s = Returned (Inl (InvalidLevel (ToUpper U (Split s (CHR ''.'') ! 1))))
         \<longleftrightarrow> ToUpper U (Split s (CHR ''.'') ! 1) \<notin> set (''WARN'' # map fst spec_levelCodes))) \<and>
   (\<forall>e. parsePriority U s = Returned (Inl e) \<longrightarrow>
      e = InvalidFacility (ToUpper U (Split s (CHR ''.'') ! 0)) \<or>
      e = InvalidLevel (ToUpper U (Split s (CHR ''.'') ! 1))) \<and>
   levelPriority U ''WARN'' = Inr LOG_WARNING \<and>
   levelPriority U ''WARNING'' = Inr LOG_WARNING \<and>
   (\<forall>p. parsePriority U s = Returned (Inr p) \<longrightarrow> drop_bit 3 p \<notin> {12, 13, 14, 15})"
proof (intro conjI impI allI)
  let ?t0 = "Split s (CHR ''.'') ! 0" and ?t1 = "Split s (CHR ''.'') ! 1"
  show "parsePriority U s = Returned (Inl (InvalidFacility (ToUpper U ?t0)))
      \<longleftrightarrow> ToUpper U ?t0 \<notin> set (map fst spec_facilityCodes)"
    using facilityPriority_fails [of U ?t0] facilityPriority_error [of U ?t0]
      levelPriority_error [of U ?t1]
    by (auto simp: parsePriority_unfold split: sum.splits)
  show "parsePriority U s = Returned (Inl (InvalidLevel (ToUpper U ?t1)))
      \<longleftrightarrow> ToUpper U ?t1 \<notin> set (''WARN'' # map fst spec_levelCodes)"
    if "ToUpper U ?t0 \<in> set (map fst spec_facilityCodes) \<and> 1 < length (Split s (CHR ''.''))"
    using that facilityPriority_fails [of U ?t0] levelPriority_fails [of U ?t1]
      levelPriority_error [of U ?t1]
    by (auto simp: parsePriority_unfold split: sum.splits)
  show "e = InvalidFacility (ToUpper U ?t0) \<or> e = InvalidLevel (ToUpper U ?t1)"
    if "parsePriority U s = Returned (Inl e)" for e
    using that facilityPriority_error [of U ?t0] levelPriority_error [of U ?t1]
    by (auto simp: parsePriority_unfold split: sum.splits if_splits)
  show "levelPriority U ''WARN'' = Inr LOG_WARNING"
    by (simp add: levelPriority_def upper_eval)
  show "levelPriority U ''WARNING'' = Inr LOG_WARNING"
    by (simp add: levelPriority_def upper_eval)
  show "drop_bit 3 p \<notin> {12, 13, 14, 15}" if "parsePriority U s = Returned (Inr p)" for p
    using parsePriority_bounds [OF that] by simp
qed

theorem parsePriority_errors_witness:
  "ToUpper id (Split ''user.bogus'' (CHR ''.'') ! 0) \<in> set (map fst spec_facilityCodes) \<and>
   1 < length (Split ''user.bogus'' (CHR ''.'')) \<and>
   ToUpper id (Split ''user.bogus'' (CHR ''.'') ! 1) \<notin> set (''WARN'' # map fst spec_levelCodes) \<and>
   parsePriority id ''user.bogus'' = Returned (Inl (InvalidLevel ''BOGUS'')) \<and>
   parsePriority id ''user.warn'' = Returned (Inr 12) \<and> drop_bit 3 (12::int) \<notin> {12, 13, 14, 15}"
  using parsePriority_errors [of id "''user.bogus''"] parsePriority_errors [of id "''user.warn''"]
  by (simp add: parse_eval spec_facilityCodes_def spec_levelCodes_def)

section \<open>Dial\<close>

lemma top_priority: "LOG_LOCAL7 OR LOG_DEBUG = 191"
  by (simp add: LOG_LOCAL7_def LOG_DEBUG_def)

lemma connect_free:
  assumes "conn w = None"
  shows "connect E w tr =
     (case netDial E (length tr) (network w) (raddr w) of
        Inl e \<Rightarrow>
          Done (Some (NetError e), w\<lparr>conn := None\<rparr>) (tr @ [DialEv (network w) (raddr w) (Inl e)])
      | Inr la \<Rightarrow>
          Done (None, (if hostname w = [] then w\<lparr>conn := Some (Conn (length tr) la), hostname := la\<rparr>
                       else w\<lparr>conn := Some (Conn (length tr) la)\<rparr>))
            (tr @ [DialEv (network w) (raddr w) (Inr (Conn (length tr) la))]))"
  using assms by (simp add: connect_def Let_def split: sum.splits)

lemma connect_held:
  assumes "conn w = Some c" "mu w"
  shows "connect E w tr = Stopped Deadlock tr"
  using assms by (simp add: connect_def Close_def)

lemma Dial_rejects:
  "pri < 0 \<or> LOG_LOCAL7 OR LOG_DEBUG < pri \<Longrightarrow>
     Dial E tr net addr pri tg host = Done (Inl InvalidPriority) tr"
  by (auto simp: Dial_def)

lemma Dial_accepts:
  assumes "0 \<le> pri" "pri \<le> LOG_LOCAL7 OR LOG_DEBUG"
  shows "Dial E tr net addr pri tg host =
     (case netDial E (length tr) net addr of
        Inl e \<Rightarrow> Done (Inl (NetError e)) (tr @ [DialEv net addr (Inl e)])
      | Inr la \<Rightarrow>
          Done (Inr \<lparr>priority = pri,
                     tag = (if tg = [] then Args0 E else tg),
                     hostname = (if host \<noteq> [] then host
                                 else if osHostname E \<noteq> [] then osHostname E else la),
                     network = net, raddr = addr, mu = False,
                     conn = Some (Conn (length tr) la)\<rparr>)
            (tr @ [DialEv net addr (Inr (Conn (length tr) la))]))"
  using assms by (simp add: Dial_def connect_free Let_def split: sum.splits)

lemma Dial_heldWriter:
  assumes "0 \<le> pri" "pri \<le> 191" "E = quietEnv \<or> E = brokenEnv"
  shows "Dial E [] ''tcp'' '':1514'' pri ''svc'' [] =
     Done (Inr (heldWriter pri)) [DialEv ''tcp'' '':1514'' (Inr (Conn 0 ''127.0.0.1:40000''))]"
  using assms
  by (auto simp: Dial_accepts top_priority heldWriter_def quietEnv_def brokenEnv_def)

text \<open>
  C7. \<open>Dial\<close> returns the invalid-priority error, with no writer and nothing done to the
  network, if and only if the priority is below 0 or above \<open>LOG_LOCAL7|LOG_DEBUG\<close>, which
  is 191. For a priority in the range it resolves the tag and the host name and makes the
  one call of \<open>net.Dial\<close>, whose answer decides between the writer and the network's
  error.
\<close>

theorem Dial_priority_check:
  "((\<exists>tr'. Dial E tr net addr pri tg host = Done (Inl InvalidPriority) tr')
      \<longleftrightarrow> pri < 0 \<or> LOG_LOCAL7 OR LOG_DEBUG < pri) \<and>
   (pri < 0 \<or> LOG_LOCAL7 OR LOG_DEBUG < pri \<longrightarrow>
      Dial E tr net addr pri tg host = Done (Inl InvalidPriority) tr) \<and>
   (0 \<le> pri \<and> pri \<le> LOG_LOCAL7 OR LOG_DEBUG \<longrightarrow>
      Dial E tr net addr pri tg host =
        (case netDial E (length tr) net addr of
           Inl e \<Rightarrow> Done (Inl (NetError e)) (tr @ [DialEv net addr (Inl e)])
         | Inr la \<Rightarrow>
             Done (Inr \<lparr>priority = pri,
                        tag = (if tg = [] then Args0 E else tg),
                        hostname = (if host \<noteq> [] then host
                                    else if osHostname E \<noteq> [] then osHostname E else la),
                        network = net, raddr = addr, mu = False,
                        conn = Some (Conn (length tr) la)\<rparr>)
               (tr @ [DialEv net addr (Inr (Conn (length tr) la))]))) \<and>
   LOG_LOCAL7 OR LOG_DEBUG = 191"
proof (intro conjI impI)
  show "(\<exists>tr'. Dial E tr net addr pri tg host = Done (Inl InvalidPriority) tr')
      \<longleftrightarrow> pri < 0 \<or> LOG_LOCAL7 OR LOG_DEBUG < pri"
  proof (cases "pri < 0 \<or> LOG_LOCAL7 OR LOG_DEBUG < pri")
    case True
    then show ?thesis using Dial_rejects [OF True] by simp
  next
    case False
    then have "0 \<le> pri" "pri \<le> LOG_LOCAL7 OR LOG_DEBUG" by auto
    from Dial_accepts [OF this] False show ?thesis
      by (simp split: sum.splits)
  qed
  show "Dial E tr net addr pri tg host = Done (Inl InvalidPriority) tr"
    if "pri < 0 \<or> LOG_LOCAL7 OR LOG_DEBUG < pri"
    using Dial_rejects [OF that] .
  show "Dial E tr net addr pri tg host =
        (case netDial E (length tr) net addr of
           Inl e \<Rightarrow> Done (Inl (NetError e)) (tr @ [DialEv net addr (Inl e)])
         | Inr la \<Rightarrow>
             Done (Inr \<lparr>priority = pri,
                        tag = (if tg = [] then Args0 E else tg),
                        hostname = (if host \<noteq> [] then host
                                    else if osHostname E \<noteq> [] then osHostname E else la),
                        network = net, raddr = addr, mu = False,
                        conn = Some (Conn (length tr) la)\<rparr>)
               (tr @ [DialEv net addr (Inr (Conn (length tr) la))]))"
    if "0 \<le> pri \<and> pri \<le> LOG_LOCAL7 OR LOG_DEBUG"
    using that Dial_accepts by blast
  show "LOG_LOCAL7 OR LOG_DEBUG = 191" by (rule top_priority)
qed

theorem Dial_priority_check_witness:
  "(LOG_LOCAL7 OR LOG_DEBUG < 192) \<and>
   Dial quietEnv [] ''tcp'' '':1514'' 192 ''svc'' [] = Done (Inl InvalidPriority) [] \<and>
   ((-1::int) < 0) \<and>
   Dial quietEnv [] ''tcp'' '':1514'' (-1) ''svc'' [] = Done (Inl InvalidPriority) [] \<and>
   (0 \<le> (191::int) \<and> 191 \<le> LOG_LOCAL7 OR LOG_DEBUG) \<and>
   Dial quietEnv [] ''tcp'' '':1514'' 191 ''svc'' [] =
     Done (Inr (heldWriter 191)) [DialEv ''tcp'' '':1514'' (Inr (Conn 0 ''127.0.0.1:40000''))]"
  using Dial_priority_check [of quietEnv "[]" "''tcp''" "'':1514''" 192 "''svc''" "[]"]
    Dial_priority_check [of quietEnv "[]" "''tcp''" "'':1514''" "-1" "''svc''" "[]"]
    Dial_priority_check [of quietEnv "[]" "''tcp''" "'':1514''" 191 "''svc''" "[]"]
  by (simp add: heldWriter_def quietEnv_def)

text \<open>
  C10. A priority that \<open>parsePriority\<close> returns lies between 0 and
  \<open>LOG_LOCAL7|LOG_DEBUG\<close>, so \<open>Dial\<close> called with it does not return the
  invalid-priority error.
\<close>

theorem parsed_priority_in_range:
  assumes "parsePriority U s = Returned (Inr p)"
  shows "0 \<le> p \<and> p \<le> LOG_LOCAL7 OR LOG_DEBUG \<and>
         (\<forall>tr'. Dial E tr net addr p tg host \<noteq> Done (Inl InvalidPriority) tr')"
proof -
  from parsePriority_bounds [OF assms] have r: "0 \<le> p" "p \<le> LOG_LOCAL7 OR LOG_DEBUG"
    by (simp_all add: top_priority)
  from Dial_accepts [OF r] have "\<forall>tr'. Dial E tr net addr p tg host \<noteq> Done (Inl InvalidPriority) tr'"
    by (simp split: sum.splits)
  with r show ?thesis by simp
qed

theorem parsed_priority_in_range_witness:
  "parsePriority id ''user.notice'' = Returned (Inr 13) \<and>
   0 \<le> (13::int) \<and> 13 \<le> LOG_LOCAL7 OR LOG_DEBUG \<and>
   Dial quietEnv [] ''udp'' '':514'' 13 [] [] \<noteq> Done (Inl InvalidPriority) []"
proof -
  have h: "parsePriority id ''user.notice'' = Returned (Inr 13)"
    by (simp add: parse_eval)
  from parsed_priority_in_range [OF h, of quietEnv "[]" "''udp''" "'':514''" "[]" "[]"] h
  show ?thesis by simp
qed

section \<open>One formatted write\<close>

lemma HasSuffix_suffix: "HasSuffix s suf \<longleftrightarrow> suffix suf s"
  by (auto simp: HasSuffix_def suffix_def) (metis append_take_drop_id)

lemma write_msg_conn:
  assumes "conn w = Some c"
  shows "write_msg E w tr p msg =
     (let line = frame p (Now E (length tr)) (hostname w) (tag w) (Getpid E) msg
                   (if HasSuffix msg [CHR 0x0A] then [] else [CHR 0x0A]);
          r = connWrite E (length tr) c line
      in Done (case r of None \<Rightarrow> (int (length msg), None) | Some e \<Rightarrow> (0, Some (NetError e)))
           (tr @ [WriteEv c line r]))"
  using assms by (simp add: write_msg_def writeString_def Let_def split: option.splits)

lemma frame_split:
  "frame p ts h tg pid msg [] =
     (''<'' @ fmtInt p @ ''>'' @ ts @ '' '' @ h @ '' '' @ tg @ ''['' @ fmtInt pid @ '']:'') @ CHR '' '' # msg"
  by (simp add: frame_def)

lemma frame_pri: "\<exists>rest. frame p ts h tg pid msg nl = ''<'' @ fmtInt p @ ''>'' @ rest"
  by (simp add: frame_def)


lemma two_nl:
  assumes "suffix [c] msg" "\<not> suffix [c, c] msg" "d \<noteq> c"
  shows "\<not> suffix [c, c] (h @ d # msg)"
proof -
  from assms(1) obtain m where m: "msg = m @ [c]" by (auto simp: suffix_def)
  show ?thesis
  proof (cases m rule: rev_cases)
    case Nil
    with m assms(3) show ?thesis by (auto simp: suffix_def)
  next
    case (snoc m' x)
    with m assms(2) have "x \<noteq> c" by (auto simp: suffix_def)
    with m snoc show ?thesis by (auto simp: suffix_def)
  qed
qed

text \<open>
  C8. The line handed to the connection is the header, the message, and one newline where
  the message does not end in one, none where it does. So the line always ends in a
  newline, and a message that ends in one newline, not two, gives a line that ends in
  one newline, not two.
\<close>

theorem trailing_newline:
  assumes "conn w = Some c"
  shows "\<exists>line r.
     trace_of (write_msg E w tr p msg) = tr @ [WriteEv c line r] \<and>
     (\<not> suffix [CHR 0x0A] msg \<longrightarrow>
        line = ''<'' @ fmtInt p @ ''>'' @ Now E (length tr) @ '' '' @ hostname w @ '' '' @ tag w @
               ''['' @ fmtInt (Getpid E) @ '']: '' @ msg @ [CHR 0x0A]) \<and>
     (suffix [CHR 0x0A] msg \<longrightarrow>
        line = ''<'' @ fmtInt p @ ''>'' @ Now E (length tr) @ '' '' @ hostname w @ '' '' @ tag w @
               ''['' @ fmtInt (Getpid E) @ '']: '' @ msg) \<and>
     suffix [CHR 0x0A] line \<and>
     (suffix [CHR 0x0A] msg \<and> \<not> suffix [CHR 0x0A, CHR 0x0A] msg \<longrightarrow>
        \<not> suffix [CHR 0x0A, CHR 0x0A] line)"
proof (cases "suffix [CHR 0x0A] msg")
  case True
  let ?line = "frame p (Now E (length tr)) (hostname w) (tag w) (Getpid E) msg []"
  have t: "trace_of (write_msg E w tr p msg) =
     tr @ [WriteEv c ?line (connWrite E (length tr) c ?line)]"
    using True by (simp add: write_msg_conn [OF assms] Let_def HasSuffix_suffix)
  have e: "?line = ''<'' @ fmtInt p @ ''>'' @ Now E (length tr) @ '' '' @ hostname w @ '' '' @ tag w @
               ''['' @ fmtInt (Getpid E) @ '']: '' @ msg"
    by (simp add: frame_def)
  have s1: "suffix [CHR 0x0A] ?line"
    using True by (auto simp: frame_def suffix_def)
  have s2: "\<not> suffix [CHR 0x0A, CHR 0x0A] ?line" if "\<not> suffix [CHR 0x0A, CHR 0x0A] msg"
    unfolding frame_split by (rule two_nl [OF True that]) simp
  from t e s1 s2 True show ?thesis by blast
next
  case False
  let ?line = "frame p (Now E (length tr)) (hostname w) (tag w) (Getpid E) msg [CHR 0x0A]"
  have t: "trace_of (write_msg E w tr p msg) =
     tr @ [WriteEv c ?line (connWrite E (length tr) c ?line)]"
    using False by (simp add: write_msg_conn [OF assms] Let_def HasSuffix_suffix)
  have e: "?line = ''<'' @ fmtInt p @ ''>'' @ Now E (length tr) @ '' '' @ hostname w @ '' '' @ tag w @
               ''['' @ fmtInt (Getpid E) @ '']: '' @ msg @ [CHR 0x0A]"
    by (simp add: frame_def)
  have s1: "suffix [CHR 0x0A] ?line"
    by (simp add: frame_def suffix_def)
  from t e s1 False show ?thesis by blast
qed

theorem trailing_newline_witness:
  "conn (heldWriter 13) = Some (Conn 0 ''127.0.0.1:40000'') \<and>
   \<not> suffix [CHR 0x0A] ''hi'' \<and>
   linesOf (trace_of (write_msg quietEnv (heldWriter 13) [] 14 ''hi'')) =
     [''<14>2006-01-02T15:04:05Z host1 svc[4242]: hi'' @ [CHR 0x0A]] \<and>
   suffix [CHR 0x0A] (''hi'' @ [CHR 0x0A]) \<and>
   \<not> suffix [CHR 0x0A, CHR 0x0A] (''hi'' @ [CHR 0x0A]) \<and>
   linesOf (trace_of (write_msg quietEnv (heldWriter 13) [] 14 (''hi'' @ [CHR 0x0A]))) =
     [''<14>2006-01-02T15:04:05Z host1 svc[4242]: hi'' @ [CHR 0x0A]]"
  using trailing_newline [of "heldWriter 13" "Conn 0 ''127.0.0.1:40000''" quietEnv "[]" 14 "''hi''"]
    trailing_newline [of "heldWriter 13" "Conn 0 ''127.0.0.1:40000''" quietEnv "[]" 14
      "''hi'' @ [CHR 0x0A]"]
  by (simp add: quietEnv_def heldWriter_def run_eval suffix_to_prefix)

section \<open>The write with its retry\<close>

lemma mask_severity: "((a AND 0xF8) OR (b AND 0x07)) AND 0x07 = b AND (0x07 :: int)"
  by (simp add: bit.conj_disj_distrib2 and.assoc)

lemma mask_facility: "((a AND 0xF8) OR (b AND 0x07)) AND 0xF8 = a AND (0xF8 :: int)"
  by (simp add: bit.conj_disj_distrib2 and.assoc)

lemma trace_of_dropCount: "trace_of (dropCount r) = trace_of r"
  by (cases r) (auto simp: dropCount_def)

lemma writeAndRetry_locked:
  "mu w \<Longrightarrow> writeAndRetry E w tr p s = Stopped Deadlock tr"
  by (simp add: writeAndRetry_def)

text \<open>
  A connection is held. Where its write fails, \<open>connect\<close> goes to close the held
  connection through the method \<open>Close\<close>, which waits for the mutex that
  \<open>writeAndRetry\<close> holds: the call stops there, after the one write.
\<close>

lemma writeAndRetry_held:
  assumes "\<not> mu w" "conn w = Some c"
  shows "writeAndRetry E w tr p s =
     (let pr = (priority w AND facilityMask) OR (p AND severityMask);
          line = frame pr (Now E (length tr)) (hostname w) (tag w) (Getpid E) s
                   (if HasSuffix s [CHR 0x0A] then [] else [CHR 0x0A]);
          r = connWrite E (length tr) c line
      in case r of
           None \<Rightarrow> Done ((int (length s), None), w\<lparr>mu := False\<rparr>) (tr @ [WriteEv c line None])
         | Some e \<Rightarrow> Stopped Deadlock (tr @ [WriteEv c line (Some e)]))"
  using assms
  by (simp add: writeAndRetry_def write_msg_conn connect_held Let_def split: option.splits)

text \<open>No connection is held: one \<open>net.Dial\<close>, and one write where it succeeds.\<close>

lemma writeAndRetry_free:
  assumes "\<not> mu w" "conn w = None"
  shows "writeAndRetry E w tr p s =
     (let pr = (priority w AND facilityMask) OR (p AND severityMask) in
      case netDial E (length tr) (network w) (raddr w) of
        Inl e \<Rightarrow> Done ((0, Some (NetError e)), w\<lparr>mu := False\<rparr>)
                  (tr @ [DialEv (network w) (raddr w) (Inl e)])
      | Inr la \<Rightarrow>
          (let c = Conn (length tr) la;
               h = (if hostname w = [] then la else hostname w);
               line = frame pr (Now E (Suc (length tr))) h (tag w) (Getpid E) s
                        (if HasSuffix s [CHR 0x0A] then [] else [CHR 0x0A]);
               r = connWrite E (Suc (length tr)) c line
           in Done ((case r of None \<Rightarrow> (int (length s), None) | Some e \<Rightarrow> (0, Some (NetError e))),
                    w\<lparr>conn := Some c, hostname := h, mu := False\<rparr>)
                (tr @ [DialEv (network w) (raddr w) (Inr c), WriteEv c line r])))"
  using assms
  by (simp add: writeAndRetry_def write_msg_conn connect_free Let_def split: option.splits sum.splits)

lemma writeAndRetry_lines:
  "\<forall>line \<in> set (linesOf (drop (length tr) (trace_of (writeAndRetry E w tr p s)))).
     \<exists>rest. line = ''<'' @ fmtInt ((priority w AND 0xF8) OR (p AND 0x07)) @ ''>'' @ rest"
proof (cases "mu w")
  case True
  then show ?thesis by (simp add: writeAndRetry_locked)
next
  case False
  show ?thesis
  proof (cases "conn w")
    case None
    show ?thesis
      using frame_pri
      by (simp add: writeAndRetry_free [OF False None] Let_def facilityMask_def severityMask_def
          split: sum.splits)
  next
    case (Some c)
    show ?thesis
      using frame_pri
      by (simp add: writeAndRetry_held [OF False Some] Let_def facilityMask_def severityMask_def
          split: option.splits)
  qed
qed

lemma writeAndRetry_one_write:
  "length (linesOf (drop (length tr) (trace_of (writeAndRetry E w tr p s)))) \<le> 1"
proof (cases "mu w")
  case True
  then show ?thesis by (simp add: writeAndRetry_locked)
next
  case False
  show ?thesis
  proof (cases "conn w")
    case None
    show ?thesis
      by (simp add: writeAndRetry_free [OF False None] Let_def split: sum.splits)
  next
    case (Some c)
    show ?thesis
      by (simp add: writeAndRetry_held [OF False Some] Let_def split: option.splits)
  qed
qed


text \<open>
  C2. Every line that a call of \<open>writeAndRetry\<close> hands to the network starts with the
  priority \<open>(cp & 0xF8) | (s & 0x07)\<close> in decimal between angle brackets, for every
  configured priority \<open>cp\<close> and severity \<open>s\<close>; its severity bits are those of \<open>s\<close>
  and its facility bits those of \<open>cp\<close>. A writer configured with \<open>USER|NOTICE\<close> that
  calls \<open>Info\<close> writes \<open><14>\<close>, which is \<open>USER|INFO\<close>, and not \<open><13>\<close>.
\<close>

theorem wire_priority:
  "(\<forall>line \<in> set (linesOf (drop (length tr) (trace_of (writeAndRetry E w tr p s)))).
      \<exists>rest. line = ''<'' @ fmtInt ((priority w AND 0xF8) OR (p AND 0x07)) @ ''>'' @ rest) \<and>
   ((priority w AND 0xF8) OR (p AND 0x07)) AND 0x07 = p AND 0x07 \<and>
   ((priority w AND 0xF8) OR (p AND 0x07)) AND 0xF8 = priority w AND 0xF8 \<and>
   (priority w = LOG_USER OR LOG_NOTICE \<longrightarrow>
      (\<forall>line \<in> set (linesOf (drop (length tr) (trace_of (Info E w tr s)))).
         \<exists>rest. line = ''<'' @ fmtInt (LOG_USER OR LOG_INFO) @ ''>'' @ rest) \<and>
      fmtInt (LOG_USER OR LOG_INFO) = ''14'' \<and> fmtInt (LOG_USER OR LOG_NOTICE) = ''13'')"
proof (intro conjI impI)
  show "\<forall>line \<in> set (linesOf (drop (length tr) (trace_of (writeAndRetry E w tr p s)))).
      \<exists>rest. line = ''<'' @ fmtInt ((priority w AND 0xF8) OR (p AND 0x07)) @ ''>'' @ rest"
    by (rule writeAndRetry_lines)
  show "((priority w AND 0xF8) OR (p AND 0x07)) AND 0x07 = p AND 0x07"
    by (rule mask_severity)
  show "((priority w AND 0xF8) OR (p AND 0x07)) AND 0xF8 = priority w AND 0xF8"
    by (rule mask_facility)
  show "\<forall>line \<in> set (linesOf (drop (length tr) (trace_of (Info E w tr s)))).
         \<exists>rest. line = ''<'' @ fmtInt (LOG_USER OR LOG_INFO) @ ''>'' @ rest"
    if "priority w = LOG_USER OR LOG_NOTICE"
  proof -
    have "(priority w AND 0xF8) OR (LOG_INFO AND 0x07) = LOG_USER OR LOG_INFO"
      using that by (simp add: facility_defs severity_defs)
    with writeAndRetry_lines [of tr E w LOG_INFO s] show ?thesis
      by (simp add: Info_def trace_of_dropCount)
  qed
  show "fmtInt (LOG_USER OR LOG_INFO) = ''14''"
    by (simp add: facility_defs severity_defs fmt_eval)
  show "fmtInt (LOG_USER OR LOG_NOTICE) = ''13''"
    by (simp add: facility_defs severity_defs fmt_eval)
qed

theorem wire_priority_witness:
  "priority (heldWriter (LOG_USER OR LOG_NOTICE)) = LOG_USER OR LOG_NOTICE \<and>
   (''<14>2006-01-02T15:04:05Z host1 svc[4242]: hi'' @ [CHR 0x0A])
     \<in> set (linesOf (drop (length []) (trace_of (Info quietEnv (heldWriter (LOG_USER OR LOG_NOTICE)) [] ''hi'')))) \<and>
   fmtInt (LOG_USER OR LOG_INFO) = ''14''"
  using wire_priority [of "[]" quietEnv "heldWriter (LOG_USER OR LOG_NOTICE)" LOG_INFO "''hi''"]
  by (simp add: Info_def quietEnv_def heldWriter_def run_eval)



text \<open>
  C3. The claim: a call makes at most two writes and one reconnect; after a write that
  failed it reconnects once, and then either returns the reconnect's error or makes one
  more write and returns its outcome. The code, for a writer that \<open>Dial\<close> returned and
  whose connection refuses the write: the call makes the one write and then waits for its
  own mutex inside \<open>connect\<close>; there is no \<open>net.Dial\<close>, no second write and no return.
\<close>

theorem retry_after_failed_write_deadlocks:
  "dialThen brokenEnv ''tcp'' '':1514'' (LOG_USER OR LOG_NOTICE) ''svc'' [] Info ''hi'' =
     Some (Stopped Deadlock
       [DialEv ''tcp'' '':1514'' (Inr (Conn 0 ''127.0.0.1:40000'')),
        WriteEv (Conn 0 ''127.0.0.1:40000'') (''<14>2006-01-02T15:04:05Z host1 svc[4242]: hi'' @ [CHR 0x0A])
          (Some ''broken pipe'')])"
  by (simp add: dialThen_def Info_def quietEnv_def brokenEnv_def run_eval)

section \<open>From Dial to the line on the wire\<close>

lemma Dial_writer:
  assumes "Dial E tr net addr pri tg host = Done (Inr w) tr1"
  shows "priority w = pri \<and> tag w = (if tg = [] then Args0 E else tg) \<and> \<not> mu w \<and>
         network w = net \<and> raddr w = addr \<and>
         (\<exists>la. netDial E (length tr) net addr = Inr la \<and> conn w = Some (Conn (length tr) la) \<and>
               tr1 = tr @ [DialEv net addr (Inr (Conn (length tr) la))])"
proof -
  have r: "0 \<le> pri" "pri \<le> LOG_LOCAL7 OR LOG_DEBUG"
    using assms by (auto simp: Dial_def split: if_splits)
  from assms show ?thesis
    by (auto simp: Dial_accepts [OF r] split: sum.splits)
qed

text \<open>
  C9. The claim, as it is written, has the line of \<open>Debug("disk full")\<close> on a writer
  dialed with \<open>LOCAL3|ERR\<close> begin with \<open><187>\<close>. In the code \<open>LOG_LOCAL3\<close> is
  \<open>19 << 3 = 152\<close> and \<open>LOG_DEBUG\<close> is 7, so the line begins with \<open><159>\<close>.
\<close>

theorem debug_line_counterexample:
  "map_option trace_of
     (dialThen quietEnv ''tcp'' '':1514'' (LOG_LOCAL3 OR LOG_ERR) ''svc'' [] Debug ''disk full'') =
     Some [DialEv ''tcp'' '':1514'' (Inr (Conn 0 ''127.0.0.1:40000'')),
           WriteEv (Conn 0 ''127.0.0.1:40000'')
             (''<159>2006-01-02T15:04:05Z host1 svc[4242]: disk full'' @ [CHR 0x0A]) None] \<and>
   \<not> prefix ''<187>'' (''<159>2006-01-02T15:04:05Z host1 svc[4242]: disk full'' @ [CHR 0x0A]) \<and>
   LOG_LOCAL3 OR LOG_DEBUG = 159"
  by (simp add: dialThen_def Debug_def quietEnv_def run_eval)

text \<open>
  C9, amended. For a writer dialed to the address \<open>:1514\<close> with \<open>LOCAL3|ERR\<close> and
  the tag \<open>svc\<close>, the call \<open>Debug("disk full")\<close> hands the network one line: \<open><159>\<close>,
  the decimal value of \<open>LOCAL3|DEBUG\<close>, then the timestamp, the host name,
  \<open>svc[pid]: disk full\<close> and a newline.
\<close>

theorem debug_line:
  assumes "Dial E tr net '':1514'' (LOG_LOCAL3 OR LOG_ERR) ''svc'' host = Done (Inr w) tr1"
  shows "\<exists>c r. drop (length tr1) (trace_of (Debug E w tr1 ''disk full'')) =
            [WriteEv c (''<159>'' @ Now E (length tr1) @ '' '' @ hostname w @ '' svc['' @
                        fmtInt (Getpid E) @ '']: disk full'' @ [CHR 0x0A]) r] \<and>
         fmtInt (LOG_LOCAL3 OR LOG_DEBUG) = ''159''"
proof -
  from Dial_writer [OF assms] obtain c where
    w: "priority w = LOG_LOCAL3 OR LOG_ERR" "tag w = ''svc''" "\<not> mu w" "conn w = Some c"
    by auto
  have p: "(priority w AND facilityMask) OR (LOG_DEBUG AND severityMask) = 159"
    by (simp add: w(1) facility_defs severity_defs facilityMask_def severityMask_def)
  have f: "fmtInt 159 = ''159''" by (simp add: fmt_eval)
  have "fmtInt (LOG_LOCAL3 OR LOG_DEBUG) = ''159''"
    by (simp add: facility_defs severity_defs fmt_eval)
  then show ?thesis
    by (simp add: Debug_def trace_of_dropCount writeAndRetry_held [OF w(3) w(4)] p f w(2)
        Let_def frame_def HasSuffix_def split: option.splits)
qed

theorem debug_line_witness:
  "Dial quietEnv [] ''tcp'' '':1514'' (LOG_LOCAL3 OR LOG_ERR) ''svc'' [] =
     Done (Inr (heldWriter 155)) [DialEv ''tcp'' '':1514'' (Inr (Conn 0 ''127.0.0.1:40000''))] \<and>
   drop 1 (trace_of (Debug quietEnv (heldWriter 155)
       [DialEv ''tcp'' '':1514'' (Inr (Conn 0 ''127.0.0.1:40000''))] ''disk full'')) =
     [WriteEv (Conn 0 ''127.0.0.1:40000'')
        (''<159>2006-01-02T15:04:05Z host1 svc[4242]: disk full'' @ [CHR 0x0A]) None]"
proof -
  have h: "Dial quietEnv [] ''tcp'' '':1514'' (LOG_LOCAL3 OR LOG_ERR) ''svc'' [] =
     Done (Inr (heldWriter 155)) [DialEv ''tcp'' '':1514'' (Inr (Conn 0 ''127.0.0.1:40000''))]"
    by (simp add: quietEnv_def heldWriter_def run_eval)
  from debug_line [OF h] h show ?thesis
    by (simp add: Debug_def quietEnv_def heldWriter_def run_eval)
qed

end
